theory Spec2Isabelle
  imports Complex_Main "HOL-Library.Signed_Division"
begin

section \<open>Section [rational]: the exact fraction type\<close>

text \<open>
  The C++ integers (\<^verbatim>\<open>std::int64_t\<close> in \<^verbatim>\<open>rational\<close>, \<^verbatim>\<open>int\<close> for exponents) are
  modelled by \<^typ>\<open>int\<close>.  Signed overflow is undefined behaviour in C++, so the model
  describes every run in which no intermediate value leaves the machine range.
  The operators \<^verbatim>\<open>/\<close> and \<^verbatim>\<open>%\<close> of C++ truncate towards zero: they are \<open>sdiv\<close> and
  \<open>smod\<close>.
\<close>

definition kul_abs :: "int \<Rightarrow> int" where
  "kul_abs a = (if a < 0 then - a else a)"

function kul_gcd :: "int \<Rightarrow> int \<Rightarrow> int" where
  "kul_gcd a b = (if b \<noteq> 0 then kul_gcd b (a smod b) else a)"
  by pat_completeness auto
termination
proof (relation "measure (\<lambda>(a, b). nat \<bar>b\<bar>)")
  show "wf (measure (\<lambda>(a, b). nat \<bar>b\<bar>))"
    by simp
next
  fix a b :: int
  assume nz: "b \<noteq> 0"
  have "\<bar>a smod b\<bar> = \<bar>a\<bar> mod \<bar>b\<bar>"
    using nz by (cases "a = 0") (simp_all add: signed_modulo_int_def abs_mult)
  moreover have "\<bar>a\<bar> mod \<bar>b\<bar> < \<bar>b\<bar>"
    using nz by simp
  ultimately show "((b, a smod b), (a, b)) \<in> measure (\<lambda>(a, b). nat \<bar>b\<bar>)"
    by simp
qed

declare kul_gcd.simps [simp del]

record rational =
  m_numerator :: int
  m_denominator :: int

text \<open>The two-argument constructor \<^verbatim>\<open>rational(numerator_arg, denominator_arg)\<close>.
  With both arguments zero the C++ code divides by zero; \<open>sdiv\<close> returns 0 there, and no
  statement below is about that call.\<close>

definition rational :: "int \<Rightarrow> int \<Rightarrow> rational" where
  "rational numerator_arg denominator_arg =
    (let abs_num_arg = kul_abs numerator_arg;
         abs_den_arg = kul_abs denominator_arg;
         common = kul_gcd abs_num_arg abs_den_arg;
         abs_num = abs_num_arg sdiv common;
         abs_den = abs_den_arg sdiv common;
         is_negative = ((\<not> numerator_arg < 0) \<noteq> (\<not> denominator_arg < 0))
     in \<lparr> m_numerator = (if is_negative then - abs_num else abs_num),
          m_denominator = abs_den \<rparr>)"

text \<open>The one-argument constructor \<^verbatim>\<open>rational(numerator_arg)\<close>.\<close>

definition rational_of_int :: "int \<Rightarrow> rational" where
  "rational_of_int numerator_arg = rational numerator_arg 1"

definition inverse_rational :: "rational \<Rightarrow> rational" where
  "inverse_rational a = rational (m_denominator a) (m_numerator a)"

definition times_rational :: "rational \<Rightarrow> rational \<Rightarrow> rational" where
  "times_rational a b =
    rational (m_numerator a * m_numerator b) (m_denominator a * m_denominator b)"

definition divide_rational :: "rational \<Rightarrow> rational \<Rightarrow> rational" where
  "divide_rational a b = times_rational a (inverse_rational b)"

definition eq_rational :: "rational \<Rightarrow> rational \<Rightarrow> bool" where
  "eq_rational a b \<longleftrightarrow>
    m_numerator a = m_numerator b \<and> m_denominator a = m_denominator b"

text \<open>The two loops of \<^verbatim>\<open>pow(rational const& b, int e)\<close>; the counter runs \<open>n\<close> times.\<close>

primrec pow_times_loop :: "nat \<Rightarrow> rational \<Rightarrow> rational \<Rightarrow> rational" where
  "pow_times_loop 0 b result = result"
| "pow_times_loop (Suc n) b result = pow_times_loop n b (times_rational result b)"

primrec pow_divide_loop :: "nat \<Rightarrow> rational \<Rightarrow> rational \<Rightarrow> rational" where
  "pow_divide_loop 0 b result = result"
| "pow_divide_loop (Suc n) b result = pow_divide_loop n b (divide_rational result b)"

definition pow_rational :: "rational \<Rightarrow> int \<Rightarrow> rational" where
  "pow_rational b e =
    pow_divide_loop (nat (- e)) b (pow_times_loop (nat e) b (rational_of_int 1))"

text \<open>\<^verbatim>\<open>convert_to<T>\<close>: the payload type \<^verbatim>\<open>T\<close> is a template parameter, here any field.\<close>

definition convert_to :: "rational \<Rightarrow> 'a::field" where
  "convert_to r = of_int (m_numerator r) / of_int (m_denominator r)"

text \<open>The invariant the data model asks of every stored fraction.\<close>

definition reduced :: "rational \<Rightarrow> bool" where
  "reduced r \<longleftrightarrow> gcd \<bar>m_numerator r\<bar> (m_denominator r) = 1 \<and> 0 < m_denominator r"

section \<open>Section [dimension]: the SI exponent vector\<close>

record dimension =
  m_time_exponent :: int
  m_length_exponent :: int
  m_mass_exponent :: int
  m_electric_current_exponent :: int
  m_temperature_exponent :: int
  m_amount_of_substance_exponent :: int
  m_luminous_intensity_exponent :: int

definition dimensionless :: dimension where
  "dimensionless = \<lparr> m_time_exponent = 0, m_length_exponent = 0, m_mass_exponent = 0,
     m_electric_current_exponent = 0, m_temperature_exponent = 0,
     m_amount_of_substance_exponent = 0, m_luminous_intensity_exponent = 0 \<rparr>"

definition time_dimension :: dimension where
  "time_dimension = dimensionless \<lparr> m_time_exponent := 1 \<rparr>"

definition length_dimension :: dimension where
  "length_dimension = dimensionless \<lparr> m_length_exponent := 1 \<rparr>"

definition mass_dimension :: dimension where
  "mass_dimension = dimensionless \<lparr> m_mass_exponent := 1 \<rparr>"

definition electric_current_dimension :: dimension where
  "electric_current_dimension = dimensionless \<lparr> m_electric_current_exponent := 1 \<rparr>"

definition temperature_dimension :: dimension where
  "temperature_dimension = dimensionless \<lparr> m_temperature_exponent := 1 \<rparr>"

definition amount_of_substance_dimension :: dimension where
  "amount_of_substance_dimension = dimensionless \<lparr> m_amount_of_substance_exponent := 1 \<rparr>"

definition luminous_intensity_dimension :: dimension where
  "luminous_intensity_dimension = dimensionless \<lparr> m_luminous_intensity_exponent := 1 \<rparr>"

definition times_dimension :: "dimension \<Rightarrow> dimension \<Rightarrow> dimension" where
  "times_dimension a b =
    \<lparr> m_time_exponent = m_time_exponent a + m_time_exponent b,
      m_length_exponent = m_length_exponent a + m_length_exponent b,
      m_mass_exponent = m_mass_exponent a + m_mass_exponent b,
      m_electric_current_exponent =
        m_electric_current_exponent a + m_electric_current_exponent b,
      m_temperature_exponent = m_temperature_exponent a + m_temperature_exponent b,
      m_amount_of_substance_exponent =
        m_amount_of_substance_exponent a + m_amount_of_substance_exponent b,
      m_luminous_intensity_exponent =
        m_luminous_intensity_exponent a + m_luminous_intensity_exponent b \<rparr>"

definition divide_dimension :: "dimension \<Rightarrow> dimension \<Rightarrow> dimension" where
  "divide_dimension a b =
    \<lparr> m_time_exponent = m_time_exponent a - m_time_exponent b,
      m_length_exponent = m_length_exponent a - m_length_exponent b,
      m_mass_exponent = m_mass_exponent a - m_mass_exponent b,
      m_electric_current_exponent =
        m_electric_current_exponent a - m_electric_current_exponent b,
      m_temperature_exponent = m_temperature_exponent a - m_temperature_exponent b,
      m_amount_of_substance_exponent =
        m_amount_of_substance_exponent a - m_amount_of_substance_exponent b,
      m_luminous_intensity_exponent =
        m_luminous_intensity_exponent a - m_luminous_intensity_exponent b \<rparr>"

definition pow_dimension :: "dimension \<Rightarrow> int \<Rightarrow> dimension" where
  "pow_dimension d e =
    \<lparr> m_time_exponent = m_time_exponent d * e,
      m_length_exponent = m_length_exponent d * e,
      m_mass_exponent = m_mass_exponent d * e,
      m_electric_current_exponent = m_electric_current_exponent d * e,
      m_temperature_exponent = m_temperature_exponent d * e,
      m_amount_of_substance_exponent = m_amount_of_substance_exponent d * e,
      m_luminous_intensity_exponent = m_luminous_intensity_exponent d * e \<rparr>"

definition eq_dimension :: "dimension \<Rightarrow> dimension \<Rightarrow> bool" where
  "eq_dimension a b \<longleftrightarrow>
    m_time_exponent a = m_time_exponent b \<and>
    m_length_exponent a = m_length_exponent b \<and>
    m_mass_exponent a = m_mass_exponent b \<and>
    m_electric_current_exponent a = m_electric_current_exponent b \<and>
    m_temperature_exponent a = m_temperature_exponent b \<and>
    m_amount_of_substance_exponent a = m_amount_of_substance_exponent b \<and>
    m_luminous_intensity_exponent a = m_luminous_intensity_exponent b"

section \<open>Section [optional]: the presence/absence slot\<close>

text \<open>\<^verbatim>\<open>optional<T>\<close> is \<^typ>\<open>'a option\<close>; \<^verbatim>\<open>nullopt\<close> is \<^term>\<open>None\<close>.\<close>

definition has_value :: "'a option \<Rightarrow> bool" where
  "has_value a \<longleftrightarrow> a \<noteq> None"

definition eq_optional :: "rational option \<Rightarrow> rational option \<Rightarrow> bool" where
  "eq_optional a b =
    (if \<not> has_value a \<and> \<not> has_value b then True
     else if has_value a \<and> has_value b then eq_rational (the a) (the b)
     else False)"

section \<open>Section [unit], [static], [prefix], [named]: compile-time unit descriptions\<close>

text \<open>
  A compile-time unit is a C++ type.  Template matching compares types, which is equality
  of the terms below.  \<open>named\<close> lists the classes that keep \<^verbatim>\<open>crtp\<close>'s own
  \<^verbatim>\<open>copy()\<close>: the classes of the source and \<open>declared\<close>, a class declared by a client
  through \<^verbatim>\<open>crtp\<close> and given by its four static members (this is where units with an
  origin come from).  \<^verbatim>\<open>static_pow\<close> and \<^verbatim>\<open>static_product\<close> replace \<^verbatim>\<open>copy()\<close> and show
  up at run time as power and product nodes.
\<close>

datatype named =
    unitless | second | meter | inch | gram | radian
  | kilo static_unit
  | milli static_unit
  | make_relative static_unit
  | declared string dimension rational "rational option"
and static_unit =
    named_type named
  | static_pow static_unit int
  | static_product "static_unit list"

fun static_dimension :: "static_unit \<Rightarrow> dimension"
  and named_dimension :: "named \<Rightarrow> dimension"
  and static_dimension_product :: "static_unit list \<Rightarrow> dimension"
where
  "static_dimension (named_type c) = named_dimension c"
| "static_dimension (static_pow base e) = pow_dimension (static_dimension base) e"
| "static_dimension (static_product us) = static_dimension_product us"
| "named_dimension unitless = dimensionless"
| "named_dimension second = time_dimension"
| "named_dimension meter = length_dimension"
| "named_dimension inch = length_dimension"
| "named_dimension gram = mass_dimension"
| "named_dimension radian = dimensionless"
| "named_dimension (kilo t) = static_dimension t"
| "named_dimension (milli t) = static_dimension t"
| "named_dimension (make_relative t) = static_dimension t"
| "named_dimension (declared n d m og) = d"
| "static_dimension_product [] = dimensionless"
| "static_dimension_product [u] = static_dimension u"
| "static_dimension_product (first_unit # v # other_units) =
     times_dimension (static_dimension first_unit) (static_dimension_product (v # other_units))"

fun static_magnitude :: "static_unit \<Rightarrow> rational"
  and named_magnitude :: "named \<Rightarrow> rational"
  and static_magnitude_product :: "static_unit list \<Rightarrow> rational"
where
  "static_magnitude (named_type c) = named_magnitude c"
| "static_magnitude (static_pow base e) = pow_rational (static_magnitude base) e"
| "static_magnitude (static_product us) = static_magnitude_product us"
| "named_magnitude unitless = rational_of_int 1"
| "named_magnitude second = rational_of_int 1"
| "named_magnitude meter = rational_of_int 1"
| "named_magnitude inch = rational 254 10000"
| "named_magnitude gram = rational 1 1000"
| "named_magnitude radian = rational_of_int 1"
| "named_magnitude (kilo t) = times_rational (rational_of_int 1000) (static_magnitude t)"
| "named_magnitude (milli t) = times_rational (rational 1 1000) (static_magnitude t)"
| "named_magnitude (make_relative t) = static_magnitude t"
| "named_magnitude (declared n d m og) = m"
| "static_magnitude_product [] = rational_of_int 1"
| "static_magnitude_product [u] = static_magnitude u"
| "static_magnitude_product (first_unit # v # other_units) =
     times_rational (static_magnitude first_unit) (static_magnitude_product (v # other_units))"

fun named_origin :: "named \<Rightarrow> rational option" where
  "named_origin (declared n d m og) = og"
| "named_origin c = None"

fun static_origin :: "static_unit \<Rightarrow> rational option" where
  "static_origin (named_type c) = named_origin c"
| "static_origin (static_pow base e) = None"
| "static_origin (static_product us) = None"

definition are_equal :: "static_unit \<Rightarrow> static_unit \<Rightarrow> bool" where
  "are_equal a b \<longleftrightarrow>
    eq_dimension (static_dimension a) (static_dimension b) \<and>
    eq_rational (static_magnitude a) (static_magnitude b) \<and>
    eq_optional (static_origin a) (static_origin b)"

definition is_absolute :: "static_unit \<Rightarrow> bool" where
  "is_absolute t \<longleftrightarrow> has_value (static_origin t)"

definition is_relative :: "static_unit \<Rightarrow> bool" where
  "is_relative t \<longleftrightarrow> \<not> is_absolute t"

subsection \<open>The type-level product algebra\<close>

text \<open>The left argument of \<^verbatim>\<open>multiply_with\<close> and \<^verbatim>\<open>divide_by\<close> is always a
  \<^verbatim>\<open>static_product<...>\<close> (no specialisation matches anything else), so it is passed as
  its list of terms.\<close>

definition prepend_unless_unitless :: "static_unit \<Rightarrow> static_unit list \<Rightarrow> static_unit list" where
  "prepend_unless_unitless a b = (if a = named_type unitless then b else a # b)"





fun simplify_product :: "static_unit list \<Rightarrow> static_unit" where
  "simplify_product [] = named_type unitless"
| "simplify_product [t] = t"
| "simplify_product ts = static_product ts"

fun simplify_t :: "static_unit \<Rightarrow> static_unit"
  and simplify_terms :: "static_unit list \<Rightarrow> static_unit list"
where
  "simplify_t (static_pow base e) =
     (if e = 0 then named_type unitless else if e = 1 then base else static_pow base e)"
| "simplify_t (static_product terms) = simplify_product (simplify_terms terms)"
| "simplify_t (named_type c) = named_type c"
| "simplify_terms [] = []"
| "simplify_terms (first_unit # next_units) =
     prepend_unless_unitless (simplify_t first_unit) (simplify_terms next_units)"




section \<open>Section [dynamic]: run-time unit descriptions\<close>

text \<open>
  A \<^verbatim>\<open>dynamic_unit\<close> owns one object behind a \<^verbatim>\<open>unit\<close> pointer: an object of a named
  class, a \<^verbatim>\<open>dynamic_exp\<close> or a \<^verbatim>\<open>dynamic_product\<close>.  The graph is owned exclusively and
  copied deeply, so a value of the datatype stands for it and copies are not written out.
\<close>

datatype dynamic_unit =
    named_unit named
  | dynamic_exp dynamic_unit int
  | dynamic_product "dynamic_unit list"

text \<open>
  What a call can end with instead of a result: the two \<^verbatim>\<open>std::runtime_error\<close>s of
  \<^verbatim>\<open>root\<close> (with the numbers their messages print), the \<^verbatim>\<open>std::bad_cast\<close> of
  \<^verbatim>\<open>dynamic_cast<dynamic_exp&>\<close>, and two places where the C++ code has no defined
  behaviour: reading \<^verbatim>\<open>*m_terms.begin()\<close> of an empty product, and \<^verbatim>\<open>%\<close> by zero.
  (\<^verbatim>\<open>std::logic_error("unexpected type")\<close> needs a fourth node kind and cannot occur.)
\<close>

datatype error =
    cannot_take_root_of_named_unit int
  | root_of_non_divisible_power int int
  | bad_cast
  | empty_product_access
  | division_by_zero

fun unit_dimension :: "dynamic_unit \<Rightarrow> error + dimension"
  and unit_dimension_loop :: "dimension \<Rightarrow> dynamic_unit list \<Rightarrow> error + dimension"
where
  "unit_dimension (named_unit c) = Inr (named_dimension c)"
| "unit_dimension (dynamic_exp base e) =
     (case unit_dimension base of Inl x \<Rightarrow> Inl x | Inr d \<Rightarrow> Inr (pow_dimension d e))"
| "unit_dimension (dynamic_product []) = Inl empty_product_access"
| "unit_dimension (dynamic_product (t # ts)) =
     (case unit_dimension t of Inl x \<Rightarrow> Inl x | Inr d \<Rightarrow> unit_dimension_loop d ts)"
| "unit_dimension_loop result [] = Inr result"
| "unit_dimension_loop result (t # ts) =
     (case unit_dimension t of Inl x \<Rightarrow> Inl x
      | Inr d \<Rightarrow> unit_dimension_loop (times_dimension result d) ts)"

fun unit_magnitude :: "dynamic_unit \<Rightarrow> error + rational"
  and unit_magnitude_loop :: "rational \<Rightarrow> dynamic_unit list \<Rightarrow> error + rational"
where
  "unit_magnitude (named_unit c) = Inr (named_magnitude c)"
| "unit_magnitude (dynamic_exp base e) =
     (case unit_magnitude base of Inl x \<Rightarrow> Inl x | Inr m \<Rightarrow> Inr (pow_rational m e))"
| "unit_magnitude (dynamic_product []) = Inl empty_product_access"
| "unit_magnitude (dynamic_product (t # ts)) =
     (case unit_magnitude t of Inl x \<Rightarrow> Inl x | Inr m \<Rightarrow> unit_magnitude_loop m ts)"
| "unit_magnitude_loop result [] = Inr result"
| "unit_magnitude_loop result (t # ts) =
     (case unit_magnitude t of Inl x \<Rightarrow> Inl x
      | Inr m \<Rightarrow> unit_magnitude_loop (times_rational result m) ts)"

fun unit_origin :: "dynamic_unit \<Rightarrow> rational option" where
  "unit_origin (named_unit c) = named_origin c"
| "unit_origin (dynamic_exp base e) = None"
| "unit_origin (dynamic_product ts) = None"

text \<open>\<^verbatim>\<open>operator==(unit const&, unit const&)\<close>, with the short-circuit of \<^verbatim>\<open>&&\<close>.\<close>

definition eq_unit :: "dynamic_unit \<Rightarrow> dynamic_unit \<Rightarrow> error + bool" where
  "eq_unit a b =
    (case unit_dimension a of Inl x \<Rightarrow> Inl x | Inr da \<Rightarrow>
     case unit_dimension b of Inl x \<Rightarrow> Inl x | Inr db \<Rightarrow>
     if \<not> eq_dimension da db then Inr False else
     case unit_magnitude a of Inl x \<Rightarrow> Inl x | Inr ma \<Rightarrow>
     case unit_magnitude b of Inl x \<Rightarrow> Inl x | Inr mb \<Rightarrow>
     if \<not> eq_rational ma mb then Inr False
     else Inr (eq_optional (unit_origin a) (unit_origin b)))"

definition push_back :: "dynamic_unit list \<Rightarrow> dynamic_unit \<Rightarrow> dynamic_unit list" where
  "push_back m_terms t = m_terms @ [t]"

definition push_back_unless_unitless ::
  "dynamic_unit list \<Rightarrow> dynamic_unit \<Rightarrow> dynamic_unit list" where
  "push_back_unless_unitless m_terms t =
    (if t \<noteq> named_unit unitless then push_back m_terms t else m_terms)"

fun simplify :: "dynamic_unit \<Rightarrow> dynamic_unit"
  and simplify_loop :: "dynamic_unit list \<Rightarrow> dynamic_unit list \<Rightarrow> dynamic_unit list"
where
  "simplify (named_unit c) = named_unit c"
| "simplify (dynamic_exp base e) =
     (if e = 0 then named_unit unitless else if e = 1 then base else dynamic_exp base e)"
| "simplify (dynamic_product ts) =
     (let result = simplify_loop [] ts
      in if result = [] then named_unit unitless
         else if length result = 1 then hd result
         else dynamic_product result)"
| "simplify_loop result [] = result"
| "simplify_loop result (u # us) =
     simplify_loop (push_back_unless_unitless result (simplify u)) us"










section \<open>Section [convert]: conversion between two units\<close>

record 'a conversion =
  m_multiplier :: 'a
  m_offset :: 'a

definition conversion ::
  "rational \<Rightarrow> rational option \<Rightarrow> rational \<Rightarrow> rational option \<Rightarrow> ('a::field) conversion" where
  "conversion old_magnitude old_origin new_magnitude new_origin =
    (let multiplier = convert_to (divide_rational old_magnitude new_magnitude);
         offset0 = 0;
         offset1 = (if has_value old_origin
                    then offset0 + convert_to (divide_rational (the old_origin) new_magnitude)
                    else offset0);
         offset2 = (if has_value new_origin
                    then offset1 - convert_to (divide_rational (the new_origin) new_magnitude)
                    else offset1)
     in \<lparr> m_multiplier = multiplier, m_offset = offset2 \<rparr>)"

text \<open>\<^verbatim>\<open>conversion(unit const& from, unit const& to)\<close> on run-time units.\<close>

definition conversion_of_units ::
  "dynamic_unit \<Rightarrow> dynamic_unit \<Rightarrow> error + ('a::field) conversion" where
  "conversion_of_units from_unit to_unit =
    (case unit_magnitude from_unit of Inl x \<Rightarrow> Inl x | Inr old_magnitude \<Rightarrow>
     case unit_magnitude to_unit of Inl x \<Rightarrow> Inl x | Inr new_magnitude \<Rightarrow>
     Inr (conversion old_magnitude (unit_origin from_unit) new_magnitude (unit_origin to_unit)))"

definition static_conversion :: "static_unit \<Rightarrow> static_unit \<Rightarrow> ('a::field) conversion" where
  "static_conversion from_unit to_unit =
    conversion (static_magnitude from_unit) (static_origin from_unit)
      (static_magnitude to_unit) (static_origin to_unit)"

definition apply_conversion :: "('a::field) conversion \<Rightarrow> 'a \<Rightarrow> 'a" where
  "apply_conversion c old_value = old_value * m_multiplier c + m_offset c"

section \<open>Section [quantity]: a value with a compile-time unit\<close>




text \<open>The two \<^verbatim>\<open>static_assert\<close>s of the converting constructor
  \<^verbatim>\<open>quantity<T, Unit>(quantity<T2, Unit2> const&)\<close>: the program is accepted only when both
  hold.\<close>

definition conversion_asserts :: "static_unit \<Rightarrow> static_unit \<Rightarrow> bool" where
  "conversion_asserts unit unit2 \<longleftrightarrow>
    eq_dimension (static_dimension unit) (static_dimension unit2) \<and>
    ((is_absolute unit \<and> is_absolute unit2) \<or> (is_relative unit \<and> is_relative unit2))"

section \<open>Units declared by a client\<close>

text \<open>
  The source declares no unit with an origin; the data model describes Celsius as one
  (an affine temperature unit) and Kelvin as a relative one.  They are declared here the
  way a client declares a unit through \<^verbatim>\<open>crtp\<close>, and serve as concrete inputs.
\<close>

definition celsius :: named where
  "celsius = declared ''degC'' temperature_dimension (rational_of_int 1)
               (Some (rational 27315 100))"

definition kelvin :: named where
  "kelvin = declared ''K'' temperature_dimension (rational_of_int 1) None"

definition fahrenheit :: named where
  "fahrenheit = declared ''degF'' temperature_dimension (rational 5 9)
                  (Some (rational 45967 180))"

section \<open>Descriptions whose powers have named bases\<close>

text \<open>
  Products built from named units by \<^verbatim>\<open>multiply_with\<close> and \<^verbatim>\<open>divide_by\<close> hold powers of
  named units only, and simplification keeps that shape.
\<close>

fun named_bases :: "dynamic_unit \<Rightarrow> bool" where
  "named_bases (named_unit c) = True"
| "named_bases (dynamic_exp base e) = (\<exists>c. base = named_unit c)"
| "named_bases (dynamic_product ts) = (\<forall>t \<in> set ts. named_bases t)"

fun static_named_bases :: "static_unit \<Rightarrow> bool" where
  "static_named_bases (named_type c) = True"
| "static_named_bases (static_pow base e) = (\<exists>c. base = named_type c)"
| "static_named_bases (static_product ts) = (\<forall>t \<in> set ts. static_named_bases t)"


section \<open>What a description denotes\<close>

text \<open>
  A magnitude is usable when it is reduced and not zero; its value is
  \<^term>\<open>convert_to r :: rat\<close>.  A run-time description is well formed when each named unit
  in it has a usable magnitude and no product in it is empty, so that its dimension and
  magnitude can be asked for; a compile-time description when each named unit in it has
  a usable magnitude.
\<close>

definition valid_magnitude :: "rational \<Rightarrow> bool" where
  "valid_magnitude r \<longleftrightarrow> reduced r \<and> m_numerator r \<noteq> 0"

fun wf_unit :: "dynamic_unit \<Rightarrow> bool" where
  "wf_unit (named_unit c) = valid_magnitude (named_magnitude c)"
| "wf_unit (dynamic_exp base e) = wf_unit base"
| "wf_unit (dynamic_product ts) = (ts \<noteq> [] \<and> (\<forall>t \<in> set ts. wf_unit t))"

fun wf_static :: "static_unit \<Rightarrow> bool" where
  "wf_static (named_type c) = valid_magnitude (named_magnitude c)"
| "wf_static (static_pow base e) = wf_static base"
| "wf_static (static_product us) = (\<forall>u \<in> set us. wf_static u)"

text \<open>The dimension and the magnitude (as a rational number) that the terms of a
  run-time description multiply to.\<close>

fun dimension_value :: "dynamic_unit \<Rightarrow> dimension"
  and dimension_values :: "dynamic_unit list \<Rightarrow> dimension"
where
  "dimension_value (named_unit c) = named_dimension c"
| "dimension_value (dynamic_exp base e) = pow_dimension (dimension_value base) e"
| "dimension_value (dynamic_product ts) = dimension_values ts"
| "dimension_values [] = dimensionless"
| "dimension_values (t # ts) = times_dimension (dimension_value t) (dimension_values ts)"

fun magnitude_value :: "dynamic_unit \<Rightarrow> rat"
  and magnitude_values :: "dynamic_unit list \<Rightarrow> rat"
where
  "magnitude_value (named_unit c) = convert_to (named_magnitude c)"
| "magnitude_value (dynamic_exp base e) = power_int (magnitude_value base) e"
| "magnitude_value (dynamic_product ts) = magnitude_values ts"
| "magnitude_values [] = 1"
| "magnitude_values (t # ts) = magnitude_value t * magnitude_values ts"

text \<open>The same for a compile-time description: its magnitude as a rational number.\<close>

abbreviation static_value :: "static_unit \<Rightarrow> rat" where
  "static_value t \<equiv> convert_to (static_magnitude t)"



section \<open>The rational invariant\<close>

lemma kul_abs_eq: "kul_abs a = \<bar>a\<bar>"
  by (simp add: kul_abs_def)

lemma kul_gcd_eq_gcd: "0 \<le> a \<Longrightarrow> 0 \<le> b \<Longrightarrow> kul_gcd a b = gcd a b"
proof (induction a b rule: kul_gcd.induct)
  case (1 a b)
  show ?case
  proof (cases "b = 0")
    case True
    with "1.prems" show ?thesis
      by (simp add: kul_gcd.simps [of a 0])
  next
    case False
    from "1.prems" have sm: "a smod b = a mod b"
      by (simp add: signed_modulo_int_def sgn_if)
    from "1.prems" False have "0 \<le> a mod b"
      by simp
    with "1.IH" [OF False] "1.prems" sm have "kul_gcd b (a smod b) = gcd b (a mod b)"
      by simp
    also have "\<dots> = gcd a b"
      by (simp add: gcd.commute gcd_red_int [symmetric])
    finally show ?thesis
      using False by (simp add: kul_gcd.simps [of a b])
  qed
qed

lemma sdiv_nonneg: "0 \<le> a \<Longrightarrow> 0 \<le> b \<Longrightarrow> a sdiv b = a div (b::int)"
  by (simp add: signed_divide_int_def sgn_if)

lemma rational_fields:
  "m_numerator (rational n d) =
     (if (n < 0) \<noteq> (d < 0) then - (\<bar>n\<bar> div gcd n d) else \<bar>n\<bar> div gcd n d)"
  "m_denominator (rational n d) = \<bar>d\<bar> div gcd n d"
  by (auto simp: rational_def Let_def kul_abs_eq kul_gcd_eq_gcd sdiv_nonneg)

lemma reduced_rational: "d \<noteq> 0 \<Longrightarrow> reduced (rational n d)"
proof -
  assume nz: "d \<noteq> 0"
  let ?g = "gcd n d"
  have gpos: "0 < ?g"
    using nz by (simp add: gcd_pos_int)
  have "gcd (\<bar>n\<bar> div ?g) (\<bar>d\<bar> div ?g) = 1"
    using div_gcd_coprime [of "\<bar>n\<bar>" "\<bar>d\<bar>"] nz by (simp add: coprime_iff_gcd_eq_1)
  moreover have "gcd n \<bar>d\<bar> \<le> \<bar>d\<bar>"
    using nz by (intro gcd_le2_int) simp
  then have "0 < \<bar>d\<bar> div ?g"
    using gpos by (simp add: pos_imp_zdiv_pos_iff)
  ultimately show ?thesis
    by (simp add: reduced_def rational_fields)
qed










section \<open>Origins of powers and products\<close>

text \<open>
  C10: every power node and every product node reports an absent origin, whatever its
  base or its terms are, in the run-time and in the compile-time realization; so a power
  or a product is a relative unit even when it is built from absolute units.
\<close>

theorem power_and_product_origin_absent:
  "unit_origin (dynamic_exp base e) = None \<and>
   unit_origin (dynamic_product ts) = None \<and>
   static_origin (static_pow sbase e) = None \<and>
   static_origin (static_product us) = None \<and>
   is_relative (static_pow sbase e) \<and>
   is_relative (static_product us)"
  by (simp add: is_relative_def is_absolute_def has_value_def)

theorem power_and_product_origin_absent_witness:
  "has_value (unit_origin (named_unit celsius)) \<and>
   unit_origin (dynamic_exp (named_unit celsius) 1) = None \<and>
   unit_origin (dynamic_product [named_unit celsius]) = None \<and>
   static_origin (static_pow (named_type celsius) 1) = None \<and>
   static_origin (static_product [named_type celsius]) = None \<and>
   is_relative (static_pow (named_type celsius) 1) \<and>
   is_relative (static_product [named_type celsius])"
proof -
  have "has_value (unit_origin (named_unit celsius))"
    by (simp add: celsius_def has_value_def)
  then show ?thesis
    using power_and_product_origin_absent [of "named_unit celsius" 1 "[named_unit celsius]"
        "named_type celsius" "[named_type celsius]"]
    by simp
qed

section \<open>The empty product\<close>

text \<open>
  C3: a product with no terms should equal the dimensionless unit in both realizations.
  The compile-time \<^verbatim>\<open>static_product<>\<close> does: dimension zero, magnitude 1, no origin,
  equal to \<^verbatim>\<open>unitless\<close>.  The run-time \<^verbatim>\<open>dynamic_product\<close> with no terms answers
  \<^verbatim>\<open>origin()\<close> only: \<^verbatim>\<open>dimension()\<close> and \<^verbatim>\<open>magnitude()\<close> read the first term of an empty
  vector, and so does the equality test against \<^verbatim>\<open>unitless\<close>.
\<close>

theorem empty_product_properties:
  "static_dimension (static_product []) = dimensionless \<and>
   static_magnitude (static_product []) = \<lparr>m_numerator = 1, m_denominator = 1\<rparr> \<and>
   static_origin (static_product []) = None \<and>
   are_equal (static_product []) (named_type unitless) \<and>
   unit_origin (dynamic_product []) = None \<and>
   unit_dimension (dynamic_product []) = Inl empty_product_access \<and>
   unit_magnitude (dynamic_product []) = Inl empty_product_access \<and>
   eq_unit (dynamic_product []) (named_unit unitless) = Inl empty_product_access"
  by code_simp

section \<open>Conversions\<close>

text \<open>
  C1: constructing a conversion between two run-time units should check that the
  dimensions are equal and that both units are absolute or both relative.
  \<^verbatim>\<open>conversion(unit const&, unit const&)\<close> reads the magnitudes and origins and checks
  nothing: from meter to second (different dimensions) and from Celsius to Kelvin
  (absolute to relative) it returns a conversion.  The assertions in the converting
  constructor of a compile-time \<^verbatim>\<open>quantity\<close> reject both.
\<close>

theorem conversion_of_units_unchecked:
  "conversion_of_units (named_unit meter) (named_unit second)
     = Inr \<lparr>m_multiplier = 1 :: rat, m_offset = 0\<rparr> \<and>
   unit_dimension (named_unit meter) \<noteq> unit_dimension (named_unit second) \<and>
   conversion_of_units (named_unit celsius) (named_unit kelvin)
     = Inr \<lparr>m_multiplier = 1 :: rat, m_offset = 5463 / 20\<rparr> \<and>
   has_value (unit_origin (named_unit celsius)) \<and>
   \<not> has_value (unit_origin (named_unit kelvin)) \<and>
   \<not> conversion_asserts (named_type second) (named_type meter) \<and>
   \<not> conversion_asserts (named_type kelvin) (named_type celsius)"
  by code_simp


lemma conversion_fields:
  "m_multiplier (conversion m1 o1 m2 o2 :: ('a::field) conversion) = convert_to (divide_rational m1 m2)"
  "m_offset (conversion m1 o1 m2 o2 :: ('a::field) conversion) =
     (case o1 of None \<Rightarrow> 0 | Some v \<Rightarrow> convert_to (divide_rational v m2))
     - (case o2 of None \<Rightarrow> 0 | Some v \<Rightarrow> convert_to (divide_rational v m2))"
  by (auto simp: conversion_def Let_def has_value_def split: option.splits)

text \<open>
  C4: for two units of equal dimension and matching absoluteness, the multiplier of the
  conversion is the source magnitude divided by the target magnitude, computed as a
  \<open>rational\<close> and then converted to the payload type; the offset is the source origin
  divided by the target magnitude (zero when absent) minus the target origin divided by
  the target magnitude (zero when absent); applying the conversion to \<open>old_value\<close> gives
  \<open>old_value * multiplier + offset\<close>.  The payload type is any field.
\<close>

theorem conversion_formula:
  fixes old_value :: "'a::field"
  shows
    "(eq_dimension (static_dimension from_unit) (static_dimension to_unit) \<and>
      is_absolute from_unit = is_absolute to_unit \<longrightarrow>
        m_multiplier (static_conversion from_unit to_unit :: 'a conversion) =
          convert_to (divide_rational (static_magnitude from_unit) (static_magnitude to_unit)) \<and>
        m_offset (static_conversion from_unit to_unit :: 'a conversion) =
          (case static_origin from_unit of None \<Rightarrow> 0
           | Some v \<Rightarrow> convert_to (divide_rational v (static_magnitude to_unit)))
          - (case static_origin to_unit of None \<Rightarrow> 0
             | Some v \<Rightarrow> convert_to (divide_rational v (static_magnitude to_unit))) \<and>
        apply_conversion (static_conversion from_unit to_unit) old_value =
          old_value * m_multiplier (static_conversion from_unit to_unit :: 'a conversion)
          + m_offset (static_conversion from_unit to_unit :: 'a conversion)) \<and>
     (unit_dimension a = Inr da \<and> unit_dimension b = Inr db \<and>
      eq_dimension da db \<and> has_value (unit_origin a) = has_value (unit_origin b) \<and>
      unit_magnitude a = Inr ma \<and> unit_magnitude b = Inr mb \<longrightarrow>
        (\<exists>c :: 'a conversion. conversion_of_units a b = Inr c \<and>
          m_multiplier c = convert_to (divide_rational ma mb) \<and>
          m_offset c =
            (case unit_origin a of None \<Rightarrow> 0 | Some v \<Rightarrow> convert_to (divide_rational v mb))
            - (case unit_origin b of None \<Rightarrow> 0 | Some v \<Rightarrow> convert_to (divide_rational v mb)) \<and>
          apply_conversion c old_value = old_value * m_multiplier c + m_offset c))"
  by (simp add: static_conversion_def conversion_of_units_def conversion_fields
      apply_conversion_def)

theorem conversion_formula_witness:
  "eq_dimension (static_dimension (named_type celsius)) (static_dimension (named_type fahrenheit)) \<and>
   is_absolute (named_type celsius) = is_absolute (named_type fahrenheit) \<and>
   m_multiplier (static_conversion (named_type celsius) (named_type fahrenheit) :: rat conversion) =
     convert_to (divide_rational (static_magnitude (named_type celsius))
                   (static_magnitude (named_type fahrenheit))) \<and>
   m_offset (static_conversion (named_type celsius) (named_type fahrenheit) :: rat conversion) =
     (case static_origin (named_type celsius) of None \<Rightarrow> 0
      | Some v \<Rightarrow> convert_to (divide_rational v (static_magnitude (named_type fahrenheit))))
     - (case static_origin (named_type fahrenheit) of None \<Rightarrow> 0
        | Some v \<Rightarrow> convert_to (divide_rational v (static_magnitude (named_type fahrenheit)))) \<and>
   apply_conversion (static_conversion (named_type celsius) (named_type fahrenheit)) (100 :: rat) =
     100 * m_multiplier (static_conversion (named_type celsius) (named_type fahrenheit) :: rat conversion)
     + m_offset (static_conversion (named_type celsius) (named_type fahrenheit) :: rat conversion) \<and>
   apply_conversion (static_conversion (named_type celsius) (named_type fahrenheit)) (100 :: rat) = 212 \<and>
   unit_dimension (named_unit celsius) = Inr temperature_dimension \<and>
   unit_dimension (named_unit fahrenheit) = Inr temperature_dimension \<and>
   eq_dimension temperature_dimension temperature_dimension \<and>
   has_value (unit_origin (named_unit celsius)) = has_value (unit_origin (named_unit fahrenheit)) \<and>
   unit_magnitude (named_unit celsius) = Inr \<lparr>m_numerator = 1, m_denominator = 1\<rparr> \<and>
   unit_magnitude (named_unit fahrenheit) = Inr \<lparr>m_numerator = 5, m_denominator = 9\<rparr> \<and>
   (\<exists>c :: rat conversion.
      conversion_of_units (named_unit celsius) (named_unit fahrenheit) = Inr c \<and>
      m_multiplier c =
        convert_to (divide_rational \<lparr>m_numerator = 1, m_denominator = 1\<rparr>
                      \<lparr>m_numerator = 5, m_denominator = 9\<rparr>) \<and>
      m_offset c =
        (case unit_origin (named_unit celsius) of None \<Rightarrow> 0
         | Some v \<Rightarrow> convert_to (divide_rational v \<lparr>m_numerator = 5, m_denominator = 9\<rparr>))
        - (case unit_origin (named_unit fahrenheit) of None \<Rightarrow> 0
           | Some v \<Rightarrow> convert_to (divide_rational v \<lparr>m_numerator = 5, m_denominator = 9\<rparr>)) \<and>
      apply_conversion c 100 = 100 * m_multiplier c + m_offset c)"
proof -
  have d: "eq_dimension (static_dimension (named_type celsius))
      (static_dimension (named_type fahrenheit))"
    by code_simp
  have a: "is_absolute (named_type celsius) = is_absolute (named_type fahrenheit)"
    by code_simp
  have v: "apply_conversion (static_conversion (named_type celsius) (named_type fahrenheit))
      (100 :: rat) = 212"
    by code_simp
  have h: "unit_dimension (named_unit celsius) = Inr temperature_dimension"
    "unit_dimension (named_unit fahrenheit) = Inr temperature_dimension"
    "eq_dimension temperature_dimension temperature_dimension"
    "has_value (unit_origin (named_unit celsius)) = has_value (unit_origin (named_unit fahrenheit))"
    "unit_magnitude (named_unit celsius) = Inr \<lparr>m_numerator = 1, m_denominator = 1\<rparr>"
    "unit_magnitude (named_unit fahrenheit) = Inr \<lparr>m_numerator = 5, m_denominator = 9\<rparr>"
    by code_simp+
  from conversion_formula [of "named_type celsius" "named_type fahrenheit" "100 :: rat"
      "named_unit celsius" temperature_dimension "named_unit fahrenheit" temperature_dimension
      "\<lparr>m_numerator = 1, m_denominator = 1\<rparr>" "\<lparr>m_numerator = 5, m_denominator = 9\<rparr>"]
    d a v h
  show ?thesis
    by blast
qed

section \<open>Subtracting absolute quantities\<close>



section \<open>Dropping the unitless class\<close>

lemma simplify_loop_filter:
  "simplify_loop result ts =
     result @ filter (\<lambda>t. t \<noteq> named_unit unitless) (map simplify ts)"
  by (induction ts arbitrary: result) (simp_all add: push_back_unless_unitless_def push_back_def)

lemma simplify_dynamic_product:
  "simplify (dynamic_product ts) =
     (case filter (\<lambda>t. t \<noteq> named_unit unitless) (map simplify ts) of
        [] \<Rightarrow> named_unit unitless
      | [t] \<Rightarrow> t
      | t # u # rest \<Rightarrow> dynamic_product (t # u # rest))"
proof -
  obtain rs where rs: "rs = filter (\<lambda>t. t \<noteq> named_unit unitless) (map simplify ts)"
    by simp
  then have "simplify_loop [] ts = rs"
    by (simp add: simplify_loop_filter)
  then have "simplify (dynamic_product ts) =
      (if rs = [] then named_unit unitless
       else if length rs = 1 then hd rs else dynamic_product rs)"
    by (simp add: Let_def)
  also have "\<dots> = (case rs of [] \<Rightarrow> named_unit unitless | [t] \<Rightarrow> t
      | t # u # rest \<Rightarrow> dynamic_product (t # u # rest))"
    by (simp split: list.splits)
  finally show ?thesis
    unfolding rs .
qed

text \<open>
  C2 as stated: a term equal to the dimensionless unit under the equality test on
  (dimension, magnitude, origin), such as radian, is dropped on append and discarded by
  \<open>simplify\<close>.  It is not: radian equals \<^verbatim>\<open>unitless\<close> under the test, is appended all the
  same, and stays in the simplified product.
\<close>

theorem radian_not_dropped_counterexample:
  "eq_unit (named_unit radian) (named_unit unitless) = Inr True \<and>
   push_back_unless_unitless [] (named_unit radian) = [named_unit radian] \<and>
   simplify (dynamic_product [named_unit radian, named_unit meter]) =
     dynamic_product [named_unit radian, named_unit meter]"
  by code_simp

text \<open>
  C2 as amended: \<^verbatim>\<open>push_back_unless_unitless\<close> tests the class of the term
  (\<^verbatim>\<open>dynamic_cast<unitless const*>\<close>).  It drops a term that is an object of the class
  \<^verbatim>\<open>unitless\<close> and appends every other term.  \<open>simplify\<close> on a product keeps, in order,
  the simplified terms that are not objects of \<^verbatim>\<open>unitless\<close>; the list it builds has no
  term of that class, and the result is \<^verbatim>\<open>unitless\<close> for the empty list, the term
  itself for one term, and the product of the list otherwise.
\<close>

theorem unitless_class_dropped:
  "push_back_unless_unitless m_terms (named_unit unitless) = m_terms \<and>
   (t \<noteq> named_unit unitless \<longrightarrow> push_back_unless_unitless m_terms t = m_terms @ [t]) \<and>
   simplify_loop [] ts = filter (\<lambda>t. t \<noteq> named_unit unitless) (map simplify ts) \<and>
   named_unit unitless \<notin> set (simplify_loop [] ts) \<and>
   simplify (dynamic_product ts) =
     (case simplify_loop [] ts of
        [] \<Rightarrow> named_unit unitless
      | [t] \<Rightarrow> t
      | t # u # rest \<Rightarrow> dynamic_product (t # u # rest))"
  by (simp add: push_back_unless_unitless_def push_back_def simplify_loop_filter
      simplify_dynamic_product del: simplify.simps)

theorem unitless_class_dropped_witness:
  "named_unit radian \<noteq> named_unit unitless \<and>
   push_back_unless_unitless [named_unit meter] (named_unit unitless) = [named_unit meter] \<and>
   push_back_unless_unitless [named_unit meter] (named_unit radian) =
     [named_unit meter] @ [named_unit radian] \<and>
   named_unit unitless \<notin> set (simplify_loop []
     [dynamic_exp (named_unit meter) 1, dynamic_exp (named_unit second) 0, named_unit unitless,
      named_unit radian]) \<and>
   simplify (dynamic_product
     [dynamic_exp (named_unit meter) 1, dynamic_exp (named_unit second) 0, named_unit unitless,
      named_unit radian]) = dynamic_product [named_unit meter, named_unit radian]"
proof -
  have v: "simplify (dynamic_product
     [dynamic_exp (named_unit meter) 1, dynamic_exp (named_unit second) 0, named_unit unitless,
      named_unit radian]) = dynamic_product [named_unit meter, named_unit radian]"
    by code_simp
  have n: "named_unit radian \<noteq> named_unit unitless"
    by simp
  from n v unitless_class_dropped [of "[named_unit meter]" "named_unit radian"
      "[dynamic_exp (named_unit meter) 1, dynamic_exp (named_unit second) 0, named_unit unitless,
        named_unit radian]"]
    unitless_class_dropped [of "[named_unit meter]" "named_unit unitless" "[]"]
  show ?thesis
    by blast
qed

section \<open>Roots of run-time units\<close>







section \<open>Simplifying twice\<close>

lemma simplify_named_bases_fixed:
  "named_bases x \<Longrightarrow> simplify (simplify x) = simplify x"
proof (induction x)
  case (named_unit c)
  show ?case by simp
next
  case (dynamic_exp base e)
  then obtain c where "base = named_unit c"
    by auto
  then show ?case by simp
next
  case (dynamic_product ts)
  let ?rs = "filter (\<lambda>t. t \<noteq> named_unit unitless) (map simplify ts)"
  have fixed: "simplify r = r" if "r \<in> set ?rs" for r
  proof -
    from that obtain t where t: "t \<in> set ts" and r: "r = simplify t"
      by auto
    from dynamic_product.prems t have "named_bases t"
      by simp
    with dynamic_product.IH [OF t] r show ?thesis
      by simp
  qed
  have "map simplify ?rs = ?rs"
    by (intro map_idI) (rule fixed)
  then have again: "filter (\<lambda>t. t \<noteq> named_unit unitless) (map simplify ?rs) = ?rs"
    by simp
  show ?case
  proof (cases ?rs)
    case Nil
    then show ?thesis
      by (simp only: simplify_dynamic_product list.case simplify.simps)
  next
    case (Cons r rest)
    note outer = Cons
    show ?thesis
    proof (cases rest)
      case Nil
      with outer have "simplify (dynamic_product ts) = r"
        by (simp only: simplify_dynamic_product list.case)
      moreover have "r \<in> set ?rs"
        unfolding outer by simp
      then have "simplify r = r"
        by (rule fixed)
      ultimately show ?thesis
        by simp
    next
      case (Cons r' rest')
      with outer have eq: "simplify (dynamic_product ts) = dynamic_product ?rs"
        by (simp only: simplify_dynamic_product list.case)
      have "simplify (dynamic_product ?rs) = dynamic_product ?rs"
        unfolding simplify_dynamic_product [of ?rs] again
        using outer Cons by (simp only: list.case)
      with eq show ?thesis
        by simp
    qed
  qed
qed

lemma simplify_terms_filter:
  "simplify_terms ts = filter (\<lambda>t. t \<noteq> named_type unitless) (map simplify_t ts)"
  by (induction ts) (simp_all add: prepend_unless_unitless_def)

lemma simplify_t_static_product:
  "simplify_t (static_product ts) =
     (case filter (\<lambda>t. t \<noteq> named_type unitless) (map simplify_t ts) of
        [] \<Rightarrow> named_type unitless
      | [t] \<Rightarrow> t
      | t # u # rest \<Rightarrow> static_product (t # u # rest))"
  by (simp add: simplify_terms_filter split: list.splits)

lemma simplify_t_static_named_bases_fixed:
  "static_named_bases x \<Longrightarrow> simplify_t (simplify_t x) = simplify_t x"
proof (induction x rule: static_named_bases.induct)
  case (1 c)
  show ?case by simp
next
  case (2 base e)
  then obtain c where "base = named_type c"
    by auto
  then show ?case by simp
next
  case (3 ts)
  let ?rs = "filter (\<lambda>t. t \<noteq> named_type unitless) (map simplify_t ts)"
  have fixed: "simplify_t r = r" if "r \<in> set ?rs" for r
  proof -
    from that obtain t where t: "t \<in> set ts" and r: "r = simplify_t t"
      by auto
    from "3.prems" t have "static_named_bases t"
      by simp
    with "3.IH" [OF t] r show ?thesis
      by simp
  qed
  have "map simplify_t ?rs = ?rs"
    by (intro map_idI) (rule fixed)
  then have again: "filter (\<lambda>t. t \<noteq> named_type unitless) (map simplify_t ?rs) = ?rs"
    by simp
  show ?case
  proof (cases ?rs)
    case Nil
    then show ?thesis
      by (simp only: simplify_t_static_product list.case simplify_t.simps)
  next
    case (Cons r rest)
    note outer = Cons
    show ?thesis
    proof (cases rest)
      case Nil
      with outer have "simplify_t (static_product ts) = r"
        by (simp only: simplify_t_static_product list.case)
      moreover have "r \<in> set ?rs"
        unfolding outer by simp
      then have "simplify_t r = r"
        by (rule fixed)
      ultimately show ?thesis
        by simp
    next
      case (Cons r' rest')
      with outer have eq: "simplify_t (static_product ts) = static_product ?rs"
        by (simp only: simplify_t_static_product list.case)
      have "simplify_t (static_product ?rs) = static_product ?rs"
        unfolding simplify_t_static_product [of ?rs] again
        using outer Cons by (simp only: list.case)
      with eq show ?thesis
        by simp
    qed
  qed
qed

text \<open>
  C9 as stated: \<open>simplify (simplify X) = simplify X\<close> for every description \<open>X\<close>, in both
  realizations.  A power with exponent 1 is replaced by its base as it is, so the product
  of the one term \<open>(celsius\<^sup>1)\<^sup>1\<close> simplifies to the relative power \<open>celsius\<^sup>1\<close>, and that
  simplifies to the absolute unit \<open>celsius\<close>: the two differ, also under the equality
  test on (dimension, magnitude, origin).
\<close>

theorem simplify_twice_counterexample:
  "simplify (dynamic_product [dynamic_exp (dynamic_exp (named_unit celsius) 1) 1]) =
     dynamic_exp (named_unit celsius) 1 \<and>
   simplify (simplify (dynamic_product [dynamic_exp (dynamic_exp (named_unit celsius) 1) 1])) =
     named_unit celsius \<and>
   eq_unit
     (simplify (simplify (dynamic_product [dynamic_exp (dynamic_exp (named_unit celsius) 1) 1])))
     (simplify (dynamic_product [dynamic_exp (dynamic_exp (named_unit celsius) 1) 1]))
     = Inr False \<and>
   simplify_t (static_product [static_pow (static_pow (named_type celsius) 1) 1]) =
     static_pow (named_type celsius) 1 \<and>
   simplify_t (simplify_t (static_product [static_pow (static_pow (named_type celsius) 1) 1])) =
     named_type celsius \<and>
   \<not> are_equal
     (simplify_t (simplify_t (static_product [static_pow (static_pow (named_type celsius) 1) 1])))
     (simplify_t (static_product [static_pow (static_pow (named_type celsius) 1) 1]))"
  by code_simp

text \<open>
  C9 as amended: simplification is idempotent, in both realizations, on every
  description in which the base of each power is a named unit (the descriptions that
  multiplication and division of named units build).
\<close>

theorem simplify_idempotent:
  "(named_bases x \<longrightarrow> simplify (simplify x) = simplify x) \<and>
   (static_named_bases y \<longrightarrow> simplify_t (simplify_t y) = simplify_t y)"
  using simplify_named_bases_fixed simplify_t_static_named_bases_fixed by blast

theorem simplify_idempotent_witness:
  "named_bases (dynamic_product
     [dynamic_exp (named_unit celsius) 1, dynamic_exp (named_unit second) 0,
      dynamic_exp (named_unit meter) 2]) \<and>
   simplify (simplify (dynamic_product
     [dynamic_exp (named_unit celsius) 1, dynamic_exp (named_unit second) 0,
      dynamic_exp (named_unit meter) 2])) =
   simplify (dynamic_product
     [dynamic_exp (named_unit celsius) 1, dynamic_exp (named_unit second) 0,
      dynamic_exp (named_unit meter) 2]) \<and>
   static_named_bases (static_product
     [static_pow (named_type celsius) 1, static_pow (named_type second) 0,
      static_pow (named_type meter) 2]) \<and>
   simplify_t (simplify_t (static_product
     [static_pow (named_type celsius) 1, static_pow (named_type second) 0,
      static_pow (named_type meter) 2])) =
   simplify_t (static_product
     [static_pow (named_type celsius) 1, static_pow (named_type second) 0,
      static_pow (named_type meter) 2])"
proof -
  have d: "named_bases (dynamic_product
     [dynamic_exp (named_unit celsius) 1, dynamic_exp (named_unit second) 0,
      dynamic_exp (named_unit meter) 2])"
    by simp
  have s: "static_named_bases (static_product
     [static_pow (named_type celsius) 1, static_pow (named_type second) 0,
      static_pow (named_type meter) 2])"
    by simp
  from d s simplify_idempotent [of
      "dynamic_product [dynamic_exp (named_unit celsius) 1, dynamic_exp (named_unit second) 0,
        dynamic_exp (named_unit meter) 2]"
      "static_product [static_pow (named_type celsius) 1, static_pow (named_type second) 0,
        static_pow (named_type meter) 2]"]
  show ?thesis
    by blast
qed

section \<open>Multiplying and then dividing\<close>

subsection \<open>Fractions as rational numbers, dimensions as a group\<close>

lemma convert_to_rat: "(convert_to r :: rat) = Fract (m_numerator r) (m_denominator r)"
  by (simp add: convert_to_def Fract_of_int_quotient)

lemma rational_cross:
  assumes "d \<noteq> 0"
  shows "m_numerator (rational n d) * d = n * m_denominator (rational n d)"
proof -
  let ?g = "gcd n d"
  have gn: "?g dvd \<bar>n\<bar>" and gd: "?g dvd \<bar>d\<bar>"
    by simp_all
  have n: "\<bar>n\<bar> = (\<bar>n\<bar> div ?g) * ?g" and d: "\<bar>d\<bar> = (\<bar>d\<bar> div ?g) * ?g"
    using gn gd by simp_all
  have "(\<bar>n\<bar> div ?g) * \<bar>d\<bar> = \<bar>n\<bar> * (\<bar>d\<bar> div ?g)"
    by (metis n d mult.assoc mult.commute)
  then show ?thesis
    using assms
    by (auto simp: rational_fields abs_if split: if_splits)
qed

lemma convert_rational:
  assumes "d \<noteq> 0"
  shows "(convert_to (rational n d) :: rat) = Fract n d"
proof -
  have "m_denominator (rational n d) \<noteq> 0"
    using reduced_rational [OF assms, of n] by (simp add: reduced_def)
  then show ?thesis
    using assms rational_cross [OF assms, of n]
    by (simp add: convert_to_rat eq_rat)
qed

lemma numerator_rational_nonzero: "d \<noteq> 0 \<Longrightarrow> n \<noteq> 0 \<Longrightarrow> m_numerator (rational n d) \<noteq> 0"
  using rational_cross [of d n] reduced_rational [of d n]
  by (auto simp: reduced_def)

lemma valid_rational: "d \<noteq> 0 \<Longrightarrow> n \<noteq> 0 \<Longrightarrow> valid_magnitude (rational n d)"
  by (simp add: valid_magnitude_def reduced_rational numerator_rational_nonzero)









lemma valid_one: "valid_magnitude (rational_of_int 1)" "(convert_to (rational_of_int 1) :: rat) = 1"
  by (simp_all add: rational_of_int_def valid_rational convert_rational One_rat_def)








lemma times_dimensionless [simp]:
  "times_dimension a dimensionless = a" "times_dimension dimensionless a = a"
  by (cases a, simp add: times_dimension_def dimensionless_def)+



lemma pow_dimension_simps [simp]:
  "pow_dimension d 0 = dimensionless" "pow_dimension d 1 = d"
  "pow_dimension dimensionless e = dimensionless"
  by (cases d, simp add: pow_dimension_def dimensionless_def)+




subsection \<open>The run-time algebra\<close>










lemma unitless_value:
  "wf_unit (named_unit unitless)"
  "dimension_value (named_unit unitless) = dimensionless"
  "magnitude_value (named_unit unitless) = 1"
  by (simp_all add: valid_one)










subsection \<open>The compile-time algebra\<close>












lemma static_unitless_value:
  "wf_static (named_type unitless)"
  "static_dimension (named_type unitless) = dimensionless"
  "static_value (named_type unitless) = 1"
  by (simp_all add: valid_one)







subsection \<open>The claim\<close>




end
